theory Spec2Isabelle
  imports Complex_Main
begin

section \<open>Strings and numbers of the scraper\<close>

text \<open>
  The product scraper (\<^verbatim>\<open>web/services/scraper.js\<close>, class \<^verbatim>\<open>ProductScraper\<close>) is
  embedded function by function. Strings are lists of 8-bit characters (code units
  0 to 255); \<^verbatim>\<open>toLowerCase\<close> acts on them as JavaScript does on these code units: the
  letters A to Z and the Latin-1 capitals (192 to 222 without the multiplication sign 215)
  move up by 32.
\<close>

definition toLowerChar :: "char \<Rightarrow> char" where
  "toLowerChar c = (let n = (of_char c :: nat) in
     if (65 \<le> n \<and> n \<le> 90) \<or> (192 \<le> n \<and> n \<le> 222 \<and> n \<noteq> 215)
     then char_of (n + 32) else c)"

definition toLowerCase :: "string \<Rightarrow> string" where
  "toLowerCase s = map toLowerChar s"

text \<open>\<^verbatim>\<open>s.startsWith(p)\<close> and \<^verbatim>\<open>s.includes(p)\<close> on strings.\<close>

fun startsWith :: "string \<Rightarrow> string \<Rightarrow> bool" where
  "startsWith s [] = True"
| "startsWith [] (p # ps) = False"
| "startsWith (c # cs) (p # ps) = (c = p \<and> startsWith cs ps)"

fun includes_str :: "string \<Rightarrow> string \<Rightarrow> bool" where
  "includes_str [] p = (p = [])"
| "includes_str (c # cs) p = (startsWith (c # cs) p \<or> includes_str cs p)"

text \<open>
  A value that is a string or missing (\<^verbatim>\<open>undefined\<close>, \<^verbatim>\<open>null\<close>) is a \<open>string option\<close>.
  \<open>truthy\<close> is JavaScript's truthiness on it, \<open>orElse\<close> is \<^verbatim>\<open>a || b\<close>, \<open>orDefault\<close> is
  \<^verbatim>\<open>a || d\<close> with a string \<open>d\<close>, and \<open>orStr\<close> is \<^verbatim>\<open>a || b\<close> on two strings.
\<close>

definition truthy :: "string option \<Rightarrow> bool" where
  "truthy v = (case v of None \<Rightarrow> False | Some s \<Rightarrow> s \<noteq> [])"

definition orElse :: "string option \<Rightarrow> string option \<Rightarrow> string option" where
  "orElse a b = (if truthy a then a else b)"

definition orDefault :: "string option \<Rightarrow> string \<Rightarrow> string" where
  "orDefault a d = (case a of None \<Rightarrow> d | Some s \<Rightarrow> if s = [] then d else s)"

definition orStr :: "string \<Rightarrow> string \<Rightarrow> string" where
  "orStr a b = (if a \<noteq> [] then a else b)"

text \<open>
  The character classes of the price patterns: \<^verbatim>\<open>/[\d.,]+/\<close> (first match),
  \<^verbatim>\<open>/[^\d.,]/g\<close> and \<^verbatim>\<open>/[^\d.]/g\<close> (replaced by the empty string), and
  \<^verbatim>\<open>replace(",", "")\<close>, which removes the first comma only.
\<close>

definition isDigit :: "char \<Rightarrow> bool" where
  "isDigit c = (c \<in> set ''0123456789'')"

definition isPriceChar :: "char \<Rightarrow> bool" where
  "isPriceChar c = (isDigit c \<or> c = CHR ''.'' \<or> c = CHR '','')"

definition matchPrice :: "string \<Rightarrow> string option" where
  "matchPrice s = (let m = takeWhile isPriceChar (dropWhile (\<lambda>c. \<not> isPriceChar c) s)
     in if m = [] then None else Some m)"

definition keepPriceChars :: "string \<Rightarrow> string" where
  "keepPriceChars s = filter isPriceChar s"

definition keepDigitsDot :: "string \<Rightarrow> string" where
  "keepDigitsDot s = filter (\<lambda>c. isDigit c \<or> c = CHR ''.'') s"

definition removeFirstComma :: "string \<Rightarrow> string" where
  "removeFirstComma s = remove1 (CHR '','') s"

text \<open>\<^verbatim>\<open>bullets.join("\n")\<close>.\<close>

fun joinLines :: "string list \<Rightarrow> string" where
  "joinLines [] = []"
| "joinLines [x] = x"
| "joinLines (x # y # ys) = x @ [CHR 0x0A] @ joinLines (y # ys)"

text \<open>
  A JavaScript number: a finite value (written as the decimal it prints as), an infinity,
  or \<^verbatim>\<open>NaN\<close>. \<open>orZero\<close> is \<^verbatim>\<open>n || 0\<close>.
\<close>

datatype number = Num rat | PosInfinity | NegInfinity | NaN

definition orZero :: "number \<Rightarrow> number" where
  "orZero n = (if n = NaN \<or> n = Num 0 then Num 0 else n)"

section \<open>The product record\<close>

text \<open>
  A property of an object that may be missing altogether, hold \<^verbatim>\<open>null\<close>, or hold a
  value. Properties that are never \<^verbatim>\<open>null\<close> use \<open>option\<close>, with \<open>None\<close> for a
  property the object literal does not have.
\<close>

datatype 'a slot = Absent | Null | Val 'a

datatype variant_option = VariantOption (option_name: string) (option_image: "string slot")

datatype variant = Variant (variant_name: string) (variant_options: "variant_option list")

type_synonym timestamp = int

record product =
  platform :: string
  productId :: "string slot"
  url :: "string option"
  title :: "string option"
  price :: number
  originalPrice :: "number slot"
  currency :: string
  images :: "string list"
  description :: string
  bullets :: "string list option"
  variants :: "variant list"
  specifications :: "(string \<times> string) list"
  rating :: "number option"
  reviewCount :: "number option"
  moq :: "number option"
  scrapedAt :: timestamp
  isDemo :: "bool option"

section \<open>Platform detection\<close>

definition detectPlatform :: "string \<Rightarrow> string" where
  "detectPlatform u = (let urlLower = toLowerCase u in
     if includes_str urlLower ''aliexpress.'' then ''aliexpress''
     else if includes_str urlLower ''amazon.'' then ''amazon''
     else if includes_str urlLower ''alibaba.com'' then ''alibaba''
     else if includes_str urlLower ''1688.com'' then ''1688''
     else if includes_str urlLower ''cjdropshipping.com'' then ''cj''
     else ''generic'')"

text \<open>
  The detector as the specification words it: an ordered table of hostname fragments,
  searched from the front on the lower-cased URL, with a default for no match.
\<close>

definition platformTable :: "(string \<times> string) list" where
  "platformTable =
     [(''aliexpress.'', ''aliexpress''), (''amazon.'', ''amazon''),
      (''alibaba.com'', ''alibaba''), (''1688.com'', ''1688''),
      (''cjdropshipping.com'', ''cj'')]"

definition detectByTable :: "string \<Rightarrow> string" where
  "detectByTable u =
     (case find (\<lambda>entry. includes_str (toLowerCase u) (fst entry)) platformTable of
        Some entry \<Rightarrow> snd entry
      | None \<Rightarrow> ''generic'')"

section \<open>The demo product and the validity check\<close>

text \<open>
  \<^verbatim>\<open>getDemoProduct(url, platform)\<close>. The third argument is what the clock reads at
  \<^verbatim>\<open>new Date()\<close>, in milliseconds; \<^verbatim>\<open>toISOString\<close> prints it.
\<close>

definition getDemoProduct :: "string \<Rightarrow> string \<Rightarrow> timestamp \<Rightarrow> product" where
  "getDemoProduct u p now = \<lparr>
     platform = p,
     productId = Absent,
     url = Some u,
     title = Some ''Premium Wireless Bluetooth Earbuds Pro'',
     price = Num (4999 / 100),
     originalPrice = Val (Num (12999 / 100)),
     currency = ''USD'',
     images =
       [''https://images.unsplash.com/photo-1590658268037-6bf12165a8df?w=800&q=80'',
        ''https://images.unsplash.com/photo-1598371839696-5c5bb00bdc28?w=800&q=80'',
        ''https://images.unsplash.com/photo-1606220588913-b3aacb4d2f46?w=800&q=80'',
        ''https://images.unsplash.com/photo-1484704849700-f032a568e944?w=800&q=80''],
     description = ''Experience premium sound quality with our latest wireless earbuds featuring advanced active noise cancellation.'',
     bullets = Some
       [''Active Noise Cancellation blocks 98% of ambient noise'',
        ''40-hour total battery life with wireless charging case'',
        ''Premium 12mm audio drivers for rich sound'',
        ''IPX5 water & sweat resistant'',
        ''Touch controls for music & calls'',
        ''Bluetooth 5.3 connectivity''],
     variants =
       [Variant ''Color''
          [VariantOption ''Midnight Black'' Absent,
           VariantOption ''Pearl White'' Absent,
           VariantOption ''Rose Gold'' Absent]],
     specifications =
       [(''Battery Life'', ''8 hours (40 with case)''),
        (''Bluetooth'', ''5.3''),
        (''Driver Size'', ''12mm''),
        (''Water Resistance'', ''IPX5'')],
     rating = Some (Num (48 / 10)),
     reviewCount = Some (Num 12847),
     moq = None,
     scrapedAt = now,
     isDemo = Some True \<rparr>"

text \<open>
  The condition of line 39:
  \<^verbatim>\<open>!result.title || result.title.includes("404") || result.title.length < 5 || result.price === 0\<close>.
\<close>

definition invalidData :: "product \<Rightarrow> bool" where
  "invalidData result =
     (case title result of
        None \<Rightarrow> True
      | Some t \<Rightarrow> t = [] \<or> includes_str t ''404'' \<or> length t < 5 \<or> price result = Num 0)"

section \<open>What one run observes of the outside world\<close>

text \<open>
  The extractors call axios, cheerio, the clock and built-in parsers. A \<open>world\<close> holds
  what each of these calls answers during one run of \<^verbatim>\<open>scrape\<close>; the extractors below
  are functions of it. An exception is a value \<open>Inl e\<close> of the result type.
\<close>

datatype error = Error string | TypeError string | AxiosError string

text \<open>
  What an \<^verbatim>\<open>await\<close> meets: the promise is fulfilled with a value, rejected with an
  error, or it never settles. A request made with a \<^verbatim>\<open>timeout\<close> option settles, and its
  answer is a sum. The request for the description at line 217 is made without one, and
  so are the functions that wait for it: their result is an \<open>outcome\<close>.
\<close>

datatype 'a outcome = Pending | Rejected error | Fulfilled 'a

definition settled :: "error + 'a \<Rightarrow> 'a outcome" where
  "settled r = (case r of Inl e \<Rightarrow> Rejected e | Inr x \<Rightarrow> Fulfilled x)"

text \<open>
  \<^verbatim>\<open>data.item\<close> of the mobile API answer, through the properties the code reads:
  \<^verbatim>\<open>item.title\<close>, \<^verbatim>\<open>item.sku?.def?.promotionPrice\<close>, \<^verbatim>\<open>item.sku?.def?.price\<close>,
  \<^verbatim>\<open>item.images\<close> and \<^verbatim>\<open>item.description\<close>. A value read from JSON, here and in the
  embedded page data, is taken to be a string (a list of strings for the image lists)
  when it is there, and \<open>None\<close> stands for \<^verbatim>\<open>undefined\<close> and \<^verbatim>\<open>null\<close>.
\<close>

record api_item =
  item_title :: "string option"
  item_promotionPrice :: "string option"
  item_price :: "string option"
  item_images :: "string list option"
  item_description :: "string option"

text \<open>
  \<^verbatim>\<open>pageData.priceModule\<close>: \<^verbatim>\<open>minActivityAmount?.value\<close>, \<^verbatim>\<open>minAmount?.value\<close> and
  \<^verbatim>\<open>formatedActivityPrice\<close>.
\<close>

record price_module =
  minActivityAmount :: "string option"
  minAmount :: "string option"
  formatedActivityPrice :: "string option"

text \<open>
  What cheerio's \<^verbatim>\<open>.data(name)\<close> returns. It converts the text of the attribute: the
  texts \<^verbatim>\<open>null\<close>, \<^verbatim>\<open>true\<close> and \<^verbatim>\<open>false\<close>, the text of a number and JSON text in
  braces or brackets become the value they denote, any other text stays a string, and a
  missing attribute gives \<^verbatim>\<open>undefined\<close>. \<open>DataFalsy\<close> stands for the falsy results that
  are not strings (\<^verbatim>\<open>undefined\<close>, \<^verbatim>\<open>null\<close>, \<^verbatim>\<open>false\<close>, 0, \<^verbatim>\<open>NaN\<close>). \<open>DataArray\<close> is an
  array, of which the strings among its elements are kept: \<^verbatim>\<open>includes\<close> is a function
  on it, \<^verbatim>\<open>replace\<close> and \<^verbatim>\<open>startsWith\<close> are not. \<open>DataOther\<close> stands for \<^verbatim>\<open>true\<close>, a
  number other than 0 and an object: truthy values on which none of the three is a
  function.
\<close>

datatype data_value = DataFalsy | DataString string | DataArray "string list" | DataOther

text \<open>
  An \<^verbatim>\<open>img\<close> element as a pair: its \<^verbatim>\<open>src\<close> attribute, read with \<^verbatim>\<open>.attr("src")\<close>, and
  what \<^verbatim>\<open>.data\<close> returns for the attribute the extractor falls back to (\<^verbatim>\<open>data-src\<close>,
  or \<^verbatim>\<open>data-old-hires\<close> on Amazon).
\<close>

type_synonym img = "string option \<times> data_value"

text \<open>
  The AliExpress page. \<open>pageModuleTitle\<close>, \<open>titleModuleSubject\<close>, \<open>priceModule\<close>,
  \<open>imagePathList\<close> and \<open>descriptionUrl\<close> are \<^verbatim>\<open>pageData?.pageModule?.title\<close>,
  \<^verbatim>\<open>pageData?.titleModule?.subject\<close>, \<^verbatim>\<open>pageData?.priceModule\<close>,
  \<^verbatim>\<open>pageData?.imageModule?.imagePathList\<close> and
  \<^verbatim>\<open>pageData?.descriptionModule?.descriptionUrl\<close>, where \<^verbatim>\<open>pageData\<close> is what the scan
  of the script elements found. \<open>ali_h1\<close>, \<open>ali_productTitle\<close> and \<open>ali_titleTag\<close> are
  the three texts of lines 172 to 174, as trimmed there. \<open>usPriceMatch\<close> is the first
  group of the match of line 189. \<open>ali_imgs\<close> are the \<^verbatim>\<open>img\<close> elements in document
  order. The variants and specifications are the values lines 222 to 248 compute; the
  check of line 39 does not read them.
\<close>

record ali_page =
  pageModuleTitle :: "string option"
  titleModuleSubject :: "string option"
  ali_h1 :: string
  ali_productTitle :: string
  ali_titleTag :: string
  priceModule :: "price_module option"
  usPriceMatch :: "string option"
  imagePathList :: "string list option"
  ali_imgs :: "img list"
  descriptionUrl :: "string option"
  ali_variants :: "variant list"
  ali_specifications :: "(string \<times> string) list"

text \<open>
  The Amazon page. \<open>productTitle\<close> and \<open>amazon_h1\<close> are the trimmed texts of line 320;
  \<open>priceTexts\<close> holds \<^verbatim>\<open>$(selector).first().text()\<close> for the price selectors in their
  order; \<open>landingImage\<close> and \<open>imgBlkFront\<close> are the two \<^verbatim>\<open>src\<close> attributes of line 344;
  \<open>altImages\<close> are the thumbnail elements; \<open>colorImages\<close> holds, for each script whose
  \<^verbatim>\<open>colorImages\<close> blob parses and has an \<^verbatim>\<open>initial\<close> array, the \<^verbatim>\<open>hiRes\<close> values of
  its entries; \<open>featureBullets\<close> are the trimmed texts of the bullet spans and
  \<open>productDescription\<close> is \<^verbatim>\<open>$("#productDescription").html()\<close>. Variants, rating and
  review count are the values lines 388 to 414 compute.
\<close>

record amazon_page =
  productTitle :: string
  amazon_h1 :: string
  priceTexts :: "string list"
  landingImage :: "string option"
  imgBlkFront :: "string option"
  altImages :: "img list"
  colorImages :: "string option list list"
  featureBullets :: "string list"
  productDescription :: "string option"
  amazon_variants :: "variant list"
  amazon_rating :: number
  amazon_reviewCount :: number

text \<open>
  The Alibaba page: the two title texts of lines 448 and 449, the price text of line
  451, the gallery \<^verbatim>\<open>img\<close> elements, the \<^verbatim>\<open>html()\<close> of the description and the minimum
  order quantity of line 466.
\<close>

record alibaba_page =
  alibaba_heading :: string
  alibaba_titleTag :: string
  alibaba_priceText :: string
  alibaba_imgs :: "img list"
  alibaba_description :: "string option"
  alibaba_moq :: number

text \<open>
  A page read by the generic extractor: the three title texts of lines 495 to 497, the
  elements of the image selector, the \<^verbatim>\<open>content\<close> attribute and the \<^verbatim>\<open>.price\<close> text of
  line 513, and the \<^verbatim>\<open>html()\<close> of the description.
\<close>

record generic_page =
  generic_h1 :: string
  generic_itemName :: string
  generic_titleTag :: string
  generic_imgs :: "img list"
  priceContent :: "string option"
  priceClassText :: string
  generic_description :: "string option"

record world =
  parseFloat :: "string \<Rightarrow> number"
  resolveURL :: "string \<Rightarrow> string \<Rightarrow> string option"
  largeSrc :: "string \<Rightarrow> string"
  fullSize :: "string \<Rightarrow> string"
  apiClock :: timestamp
  pageClock :: timestamp
  demoClock :: timestamp
  productIdMatch :: "string option"
  apiResponse :: "error + api_item option"
  aliResponse :: "error + ali_page"
  descriptionResponse :: "string outcome"
  amazonResponse :: "error + amazon_page"
  alibabaResponse :: "error + alibaba_page"
  genericResponse :: "error + generic_page"

text \<open>
  \<open>parseFloat\<close> is the built-in on a string. \<open>resolveURL w src base\<close> is
  \<^verbatim>\<open>new URL(src, base).href\<close>, \<open>None\<close> when the constructor throws. \<open>largeSrc\<close> is
  \<^verbatim>\<open>src.replace(/_\d+x\d+\.(jpg|png|webp)/gi, ".$1")\<close> and \<open>fullSize\<close> is
  \<^verbatim>\<open>s.replace(/\._.*_\./, ".")\<close>. The three clocks are the readings of \<^verbatim>\<open>new Date()\<close>
  where the API record, the page record and the demo product are built; each place is
  reached at most once in a run. \<open>productIdMatch\<close> is the first group of the first of the
  three product-id patterns that matches the URL. A response is the exception axios or
  cheerio raised, or the answers to the queries the extractor makes on the page.
  \<open>descriptionResponse\<close> is what \<^verbatim>\<open>axios.get(descriptionUrl)\<close> of line 217 comes to: the
  \<^verbatim>\<open>data\<close> of the answer, an error, or nothing at all when the host stays silent.
\<close>

section \<open>Building the image list\<close>

text \<open>\<^verbatim>\<open>if (!images.includes(x)) images.push(x)\<close>\<close>

definition pushNew :: "string list \<Rightarrow> string \<Rightarrow> string list" where
  "pushNew imgs x = (if x \<in> set imgs then imgs else imgs @ [x])"

text \<open>
  \<^verbatim>\<open>$(img).attr("src") || $(img).data("src")\<close>: the \<^verbatim>\<open>src\<close> attribute when it is there
  and not empty, and what \<^verbatim>\<open>.data\<close> returns otherwise.
\<close>

definition imgSrc :: "img \<Rightarrow> data_value" where
  "imgSrc i =
     (case fst i of
        None \<Rightarrow> snd i
      | Some s \<Rightarrow> if s = [] then snd i else DataString s)"

text \<open>
  \<^verbatim>\<open>$(selector).each(callback)\<close> with a callback that works on the list: the callback
  runs on the elements in order, and what it throws ends the loop and the extractor.
\<close>

fun eachImg ::
  "(string list \<Rightarrow> img \<Rightarrow> error + string list) \<Rightarrow> string list \<Rightarrow> img list
     \<Rightarrow> error + string list" where
  "eachImg step imgs [] = Inr imgs"
| "eachImg step imgs (i # rest) =
     (case step imgs i of
        Inl e \<Rightarrow> Inl e
      | Inr imgs' \<Rightarrow> eachImg step imgs' rest)"

text \<open>\<^verbatim>\<open>s.startsWith("//") ? `https:${s}` : s\<close>\<close>

definition httpsIfRelative :: "string \<Rightarrow> string" where
  "httpsIfRelative s = (if startsWith s ''//'' then ''https:'' @ s else s)"

text \<open>
  AliExpress, lines 194 to 211: first the embedded path list, then the page's images.
  In the second loop \<^verbatim>\<open>src\<close> is \<^verbatim>\<open>attr("src") || data("src") || ""\<close>. An array passes
  the two \<^verbatim>\<open>includes\<close> tests when it has both strings among its elements, and then
  \<^verbatim>\<open>src.replace\<close> throws.
\<close>

definition aliPathStep :: "string list \<Rightarrow> string \<Rightarrow> string list" where
  "aliPathStep imgs i = pushNew imgs (httpsIfRelative i)"

definition aliPathImages :: "ali_page \<Rightarrow> string list" where
  "aliPathImages page =
     (case imagePathList page of None \<Rightarrow> [] | Some l \<Rightarrow> foldl aliPathStep [] l)"

definition aliImgStep :: "world \<Rightarrow> string list \<Rightarrow> img \<Rightarrow> error + string list" where
  "aliImgStep w imgs i =
     (case imgSrc i of
        DataFalsy \<Rightarrow> Inr imgs
      | DataString src \<Rightarrow>
          if includes_str src ''alicdn.com'' \<and> includes_str src ''http'' \<and> src \<notin> set imgs
          then Inr (pushNew imgs (largeSrc w src)) else Inr imgs
      | DataArray elems \<Rightarrow>
          if ''alicdn.com'' \<in> set elems \<and> ''http'' \<in> set elems
          then Inl (TypeError ''src.replace is not a function'') else Inr imgs
      | DataOther \<Rightarrow> Inl (TypeError ''src.includes is not a function''))"

definition aliImages :: "world \<Rightarrow> ali_page \<Rightarrow> error + string list" where
  "aliImages w page = eachImg (aliImgStep w) (aliPathImages page) (ali_imgs page)"

text \<open>Amazon, lines 341 to 374: main image, thumbnails, then the \<^verbatim>\<open>hiRes\<close> entries.\<close>

definition amazonMainImages :: "world \<Rightarrow> amazon_page \<Rightarrow> string list" where
  "amazonMainImages w page =
     (case orElse (landingImage page) (imgBlkFront page) of
        None \<Rightarrow> []
      | Some mainImg \<Rightarrow> if mainImg = [] then [] else [fullSize w mainImg])"

definition amazonThumbStep :: "world \<Rightarrow> string list \<Rightarrow> img \<Rightarrow> error + string list" where
  "amazonThumbStep w imgs i =
     (case imgSrc i of
        DataFalsy \<Rightarrow> Inr imgs
      | DataString src \<Rightarrow> if src = [] then Inr imgs else Inr (pushNew imgs (fullSize w src))
      | DataArray elems \<Rightarrow> Inl (TypeError ''src.replace is not a function'')
      | DataOther \<Rightarrow> Inl (TypeError ''src.replace is not a function''))"

definition hiResStep :: "string list \<Rightarrow> string option \<Rightarrow> string list" where
  "hiResStep imgs h =
     (case h of
        None \<Rightarrow> imgs
      | Some hiRes \<Rightarrow> if hiRes \<noteq> [] \<and> hiRes \<notin> set imgs then imgs @ [hiRes] else imgs)"

definition amazonImages :: "world \<Rightarrow> amazon_page \<Rightarrow> error + string list" where
  "amazonImages w page =
     (case eachImg (amazonThumbStep w) (amazonMainImages w page) (altImages page) of
        Inl e \<Rightarrow> Inl e
      | Inr imgs \<Rightarrow> Inr (foldl hiResStep imgs (concat (colorImages page))))"

text \<open>Alibaba, lines 455 to 463.\<close>

definition alibabaStep :: "string list \<Rightarrow> img \<Rightarrow> error + string list" where
  "alibabaStep imgs i =
     (case imgSrc i of
        DataFalsy \<Rightarrow> Inr imgs
      | DataString src \<Rightarrow>
          if src \<noteq> [] \<and> src \<notin> set imgs then Inr (imgs @ [httpsIfRelative src]) else Inr imgs
      | DataArray elems \<Rightarrow> Inl (TypeError ''src.startsWith is not a function'')
      | DataOther \<Rightarrow> Inl (TypeError ''src.startsWith is not a function''))"

definition alibabaImages :: "alibaba_page \<Rightarrow> error + string list" where
  "alibabaImages page = eachImg alibabaStep [] (alibaba_imgs page)"

text \<open>
  The generic extractor, lines 499 to 510. \<^verbatim>\<open>new URL\<close> may throw inside the loop too.
\<close>

definition genericStep :: "world \<Rightarrow> string \<Rightarrow> string list \<Rightarrow> img \<Rightarrow> error + string list" where
  "genericStep w u imgs i =
     (case imgSrc i of
        DataFalsy \<Rightarrow> Inr imgs
      | DataString src \<Rightarrow>
          if src \<noteq> [] \<and> \<not> startsWith src ''data:'' then
            (if \<not> startsWith src ''http'' then
               (case resolveURL w src u of
                  None \<Rightarrow> Inl (TypeError ''Invalid URL'')
                | Some href \<Rightarrow> Inr (pushNew imgs href))
             else Inr (pushNew imgs src))
          else Inr imgs
      | DataArray elems \<Rightarrow> Inl (TypeError ''src.startsWith is not a function'')
      | DataOther \<Rightarrow> Inl (TypeError ''src.startsWith is not a function''))"

definition genericImages :: "world \<Rightarrow> string \<Rightarrow> generic_page \<Rightarrow> error + string list" where
  "genericImages w u page = eachImg (genericStep w u) [] (generic_imgs page)"

section \<open>The extractors\<close>

text \<open>\<^verbatim>\<open>parseFloat(v || 0)\<close> and \<^verbatim>\<open>parseFloat(v)\<close> on a value that may be missing.\<close>

definition parseFloatOrZero :: "world \<Rightarrow> string option \<Rightarrow> number" where
  "parseFloatOrZero w v =
     (case v of None \<Rightarrow> Num 0 | Some s \<Rightarrow> if s = [] then Num 0 else parseFloat w s)"

definition parseFloatOpt :: "world \<Rightarrow> string option \<Rightarrow> number" where
  "parseFloatOpt w v = (case v of None \<Rightarrow> NaN | Some s \<Rightarrow> parseFloat w s)"

text \<open>
  \<^verbatim>\<open>scrapeAliExpressAPI\<close>, \<^verbatim>\<open>scrapeAmazon\<close>, \<^verbatim>\<open>scrapeAlibaba\<close> and \<^verbatim>\<open>scrapeGeneric\<close> each
  wait for one request, made with a timeout, so they settle and their result is a sum.
\<close>

definition scrapeAliExpressAPI :: "world \<Rightarrow> string \<Rightarrow> error + product" where
  "scrapeAliExpressAPI w pid =
     (case apiResponse w of
        Inl e \<Rightarrow> Inl e
      | Inr None \<Rightarrow> Inl (Error ''No data from API'')
      | Inr (Some item) \<Rightarrow> Inr \<lparr>
          platform = ''aliexpress'',
          productId = Val pid,
          url = None,
          title = item_title item,
          price = parseFloatOrZero w (orElse (item_promotionPrice item) (item_price item)),
          originalPrice = Val (parseFloatOrZero w (item_price item)),
          currency = ''USD'',
          images = (case item_images item of None \<Rightarrow> [] | Some l \<Rightarrow> l),
          description = orDefault (item_description item) [],
          bullets = None,
          variants = [],
          specifications = [],
          rating = None,
          reviewCount = None,
          moq = None,
          scrapedAt = apiClock w,
          isDemo = None \<rparr>)"

text \<open>
  Lines 120 to 129 of \<^verbatim>\<open>scrapeAliExpress\<close>: the record returned from inside the
  \<^verbatim>\<open>if (productId)\<close> block, when there is one.
\<close>

definition apiAttempt :: "world \<Rightarrow> product option" where
  "apiAttempt w =
     (case productIdMatch w of
        None \<Rightarrow> None
      | Some pid \<Rightarrow>
          if pid = [] then None
          else (case scrapeAliExpressAPI w pid of
                  Inl e \<Rightarrow> None
                | Inr apiData \<Rightarrow> if truthy (title apiData) then Some apiData else None))"

definition aliTitle :: "ali_page \<Rightarrow> string" where
  "aliTitle page =
     orDefault (pageModuleTitle page)
       (orDefault (titleModuleSubject page)
          (orStr (ali_h1 page) (orStr (ali_productTitle page) (ali_titleTag page))))"

definition aliPrice :: "ali_page \<Rightarrow> string option" where
  "aliPrice page =
     (let price =
        (case priceModule page of
           None \<Rightarrow> Some ''0.00''
         | Some pm \<Rightarrow>
             orElse (minActivityAmount pm)
               (orElse (minAmount pm) (map_option keepDigitsDot (formatedActivityPrice pm))))
      in if price = Some ''0.00''
         then (case usPriceMatch page of None \<Rightarrow> price | Some m \<Rightarrow> Some m)
         else price)"

definition aliOriginalPrice :: "ali_page \<Rightarrow> string option" where
  "aliOriginalPrice page = (case priceModule page of None \<Rightarrow> None | Some pm \<Rightarrow> minAmount pm)"

text \<open>
  Lines 213 to 220: the description is fetched when the page data names an address for
  it. The request has no timeout. An error is caught and leaves the description empty;
  a host that never answers leaves the \<^verbatim>\<open>await\<close> waiting.
\<close>

definition aliDescription :: "world \<Rightarrow> ali_page \<Rightarrow> string outcome" where
  "aliDescription w page =
     (if truthy (descriptionUrl page)
      then (case descriptionResponse w of
              Pending \<Rightarrow> Pending
            | Rejected e \<Rightarrow> Fulfilled []
            | Fulfilled d \<Rightarrow> Fulfilled d)
      else Fulfilled [])"

definition scrapeAliExpress :: "world \<Rightarrow> string \<Rightarrow> product outcome" where
  "scrapeAliExpress w u =
     (case apiAttempt w of
        Some apiData \<Rightarrow> Fulfilled apiData
      | None \<Rightarrow>
          (case aliResponse w of
             Inl e \<Rightarrow> Rejected e
           | Inr page \<Rightarrow>
               (case aliImages w page of
                  Inl e \<Rightarrow> Rejected e
                | Inr imgs \<Rightarrow>
                    (case aliDescription w page of
                       Pending \<Rightarrow> Pending
                     | Rejected e \<Rightarrow> Rejected e
                     | Fulfilled d \<Rightarrow> Fulfilled \<lparr>
                         platform = ''aliexpress'',
                         productId =
                           (case productIdMatch w of None \<Rightarrow> Null | Some pid \<Rightarrow> Val pid),
                         url = Some u,
                         title = Some (orStr (aliTitle page) ''Product''),
                         price = orZero (parseFloatOpt w (aliPrice page)),
                         originalPrice =
                           (if truthy (aliOriginalPrice page)
                            then Val (parseFloatOpt w (aliOriginalPrice page)) else Null),
                         currency = ''USD'',
                         images = take 15 imgs,
                         description = d,
                         bullets = None,
                         variants = ali_variants page,
                         specifications = ali_specifications page,
                         rating = None,
                         reviewCount = None,
                         moq = None,
                         scrapedAt = pageClock w,
                         isDemo = None \<rparr>))))"

definition amazonPrice :: "amazon_page \<Rightarrow> string" where
  "amazonPrice page =
     (case find (\<lambda>priceEl. priceEl \<noteq> []) (priceTexts page) of
        None \<Rightarrow> ''0.00''
      | Some priceEl \<Rightarrow> keepPriceChars priceEl)"

definition amazonBullets :: "amazon_page \<Rightarrow> string list" where
  "amazonBullets page = filter (\<lambda>t. t \<noteq> []) (featureBullets page)"

definition scrapeAmazon :: "world \<Rightarrow> string \<Rightarrow> error + product" where
  "scrapeAmazon w u =
     (case amazonResponse w of
        Inl e \<Rightarrow> Inl e
      | Inr page \<Rightarrow>
          (case amazonImages w page of
             Inl e \<Rightarrow> Inl e
           | Inr imgs \<Rightarrow> Inr \<lparr>
               platform = ''amazon'',
               productId = Absent,
               url = Some u,
               title = Some (orStr (productTitle page) (amazon_h1 page)),
               price = orZero (parseFloat w (amazonPrice page)),
               originalPrice = Absent,
               currency = ''USD'',
               images = take 15 imgs,
               description =
                 orDefault (productDescription page)
                   (orStr (joinLines (amazonBullets page)) []),
               bullets = Some (amazonBullets page),
               variants = amazon_variants page,
               specifications = [],
               rating = Some (amazon_rating page),
               reviewCount = Some (amazon_reviewCount page),
               moq = None,
               scrapedAt = pageClock w,
               isDemo = None \<rparr>))"

definition priceOrDefault :: "string \<Rightarrow> string" where
  "priceOrDefault priceText = (case matchPrice priceText of None \<Rightarrow> ''0.00'' | Some m \<Rightarrow> m)"

definition scrapeAlibaba :: "world \<Rightarrow> string \<Rightarrow> error + product" where
  "scrapeAlibaba w u =
     (case alibabaResponse w of
        Inl e \<Rightarrow> Inl e
      | Inr page \<Rightarrow>
          (case alibabaImages page of
             Inl e \<Rightarrow> Inl e
           | Inr imgs \<Rightarrow> Inr \<lparr>
               platform = ''alibaba'',
               productId = Absent,
               url = Some u,
               title = Some (orStr (alibaba_heading page) (alibaba_titleTag page)),
               price =
                 orZero (parseFloat w
                   (removeFirstComma (priceOrDefault (alibaba_priceText page)))),
               originalPrice = Absent,
               currency = ''USD'',
               images = take 15 imgs,
               description = orDefault (alibaba_description page) [],
               bullets = None,
               variants = [],
               specifications = [],
               rating = None,
               reviewCount = None,
               moq = Some (alibaba_moq page),
               scrapedAt = pageClock w,
               isDemo = None \<rparr>))"

definition scrapeGeneric :: "world \<Rightarrow> string \<Rightarrow> error + product" where
  "scrapeGeneric w u =
     (case genericResponse w of
        Inl e \<Rightarrow> Inl e
      | Inr page \<Rightarrow>
          (case genericImages w u page of
             Inl e \<Rightarrow> Inl e
           | Inr imgs \<Rightarrow> Inr \<lparr>
               platform = ''generic'',
               productId = Absent,
               url = Some u,
               title =
                 Some (orStr (generic_h1 page)
                   (orStr (generic_itemName page) (generic_titleTag page))),
               price =
                 orZero (parseFloat w (removeFirstComma
                   (priceOrDefault (orDefault (priceContent page) (priceClassText page))))),
               originalPrice = Absent,
               currency = ''USD'',
               images = take 15 imgs,
               description = orDefault (generic_description page) [],
               bullets = None,
               variants = [],
               specifications = [],
               rating = None,
               reviewCount = None,
               moq = None,
               scrapedAt = pageClock w,
               isDemo = None \<rparr>))"

section \<open>The main scrape method\<close>

text \<open>
  The \<^verbatim>\<open>switch (platform)\<close> of lines 24 to 36. The three extractors whose only request
  has a timeout settle; \<^verbatim>\<open>scrapeAliExpress\<close> may not.
\<close>

definition runExtractor :: "world \<Rightarrow> string \<Rightarrow> string \<Rightarrow> product outcome" where
  "runExtractor w u p =
     (if p = ''aliexpress'' then scrapeAliExpress w u
      else if p = ''amazon'' then settled (scrapeAmazon w u)
      else if p = ''alibaba'' then settled (scrapeAlibaba w u)
      else settled (scrapeGeneric w u))"

text \<open>Lines 38 to 44: the check on the extractor's record and what is returned after it.\<close>

definition validityGate :: "world \<Rightarrow> string \<Rightarrow> string \<Rightarrow> product \<Rightarrow> product" where
  "validityGate w u p result =
     (if invalidData result then getDemoProduct u p (demoClock w) else result)"

text \<open>The body of the \<^verbatim>\<open>try\<close> block, lines 23 to 44.\<close>

definition tryBlock :: "world \<Rightarrow> string \<Rightarrow> string \<Rightarrow> product outcome" where
  "tryBlock w u p =
     (case runExtractor w u p of
        Pending \<Rightarrow> Pending
      | Rejected e \<Rightarrow> Rejected e
      | Fulfilled result \<Rightarrow> Fulfilled (validityGate w u p result))"

text \<open>
  The argument of \<^verbatim>\<open>scrape\<close> comes from a JSON request body that the callers only test
  for truthiness: it is a string, or another JSON value, none of which has a
  \<^verbatim>\<open>toLowerCase\<close> method. \<^verbatim>\<open>detectPlatform\<close> is called before the \<^verbatim>\<open>try\<close>. The
  \<^verbatim>\<open>catch\<close> handles what the \<^verbatim>\<open>try\<close> block throws; it has nothing to handle while the
  \<^verbatim>\<open>await\<close> of the block is still waiting.
\<close>

datatype argument = Str string | NonString

definition scrape :: "world \<Rightarrow> argument \<Rightarrow> product outcome" where
  "scrape w a =
     (case a of
        NonString \<Rightarrow> Rejected (TypeError ''url.toLowerCase is not a function'')
      | Str u \<Rightarrow>
          (let p = detectPlatform u in
           case tryBlock w u p of
             Pending \<Rightarrow> Pending
           | Rejected e \<Rightarrow> Fulfilled (getDemoProduct u p (demoClock w))
           | Fulfilled result \<Rightarrow> Fulfilled result))"

section \<open>Example runs\<close>

text \<open>
  Concrete worlds for the runs evaluated below. \<open>exampleParseFloat\<close> is \<^verbatim>\<open>parseFloat\<close> on
  the two price strings that occur in them. None of the image addresses used contains
  a pattern that \<open>largeSrc\<close> or \<open>fullSize\<close> would rewrite, so both leave them as they are.
  In \<open>offline\<close> every request fails.
\<close>

definition exampleParseFloat :: "string \<Rightarrow> number" where
  "exampleParseFloat s =
     (if s = ''12.99'' then Num (1299 / 100) else if s = ''0.00'' then Num 0 else NaN)"

definition offline :: world where
  "offline = \<lparr>
     parseFloat = exampleParseFloat,
     resolveURL = (\<lambda>src base. None),
     largeSrc = (\<lambda>s. s),
     fullSize = (\<lambda>s. s),
     apiClock = 1767225600000,
     pageClock = 1767225600250,
     demoClock = 1767225600500,
     productIdMatch = None,
     apiResponse = Inl (AxiosError ''timeout of 10000ms exceeded''),
     aliResponse = Inl (AxiosError ''timeout of 20000ms exceeded''),
     descriptionResponse = Rejected (AxiosError ''connect ECONNREFUSED''),
     amazonResponse = Inl (AxiosError ''timeout of 20000ms exceeded''),
     alibabaResponse = Inl (AxiosError ''timeout of 20000ms exceeded''),
     genericResponse = Inl (AxiosError ''timeout of 15000ms exceeded'') \<rparr>"

text \<open>
  An AliExpress page without embedded JSON, with the heading \<^verbatim>\<open>Wireless Charger\<close> and
  \<^verbatim>\<open>US $12.99\<close> in the body; the API request fails.
\<close>

definition chargerUrl :: string where
  "chargerUrl = ''https://www.aliexpress.com/item/1005001234567890.html''"

definition chargerWorld :: world where
  "chargerWorld = offline \<lparr>
     productIdMatch := Some ''1005001234567890'',
     aliResponse := Inr \<lparr>
       pageModuleTitle = None, titleModuleSubject = None,
       ali_h1 = ''Wireless Charger'', ali_productTitle = [],
       ali_titleTag = ''Wireless Charger'',
       priceModule = None, usPriceMatch = Some ''12.99'',
       imagePathList = None, ali_imgs = [],
       descriptionUrl = None, ali_variants = [], ali_specifications = [] \<rparr> \<rparr>"

definition chargerRecord :: product where
  "chargerRecord = \<lparr>
     platform = ''aliexpress'', productId = Val ''1005001234567890'',
     url = Some chargerUrl, title = Some ''Wireless Charger'',
     price = Num (1299 / 100), originalPrice = Null, currency = ''USD'', images = [],
     description = [], bullets = None, variants = [], specifications = [],
     rating = None, reviewCount = None, moq = None,
     scrapedAt = 1767225600250, isDemo = None \<rparr>"

text \<open>The same URL when the mobile API answers with an item.\<close>

definition apiWorld :: world where
  "apiWorld = offline \<lparr>
     productIdMatch := Some ''1005001234567890'',
     apiResponse := Inr (Some \<lparr>
       item_title = Some ''Wireless Charger'',
       item_promotionPrice = None, item_price = Some ''12.99'',
       item_images = Some [''https://ae01.alicdn.com/kf/charger.jpg''],
       item_description = None \<rparr>) \<rparr>"

definition apiRecord :: product where
  "apiRecord = \<lparr>
     platform = ''aliexpress'', productId = Val ''1005001234567890'',
     url = None, title = Some ''Wireless Charger'',
     price = Num (1299 / 100), originalPrice = Val (Num (1299 / 100)), currency = ''USD'',
     images = [''https://ae01.alicdn.com/kf/charger.jpg''],
     description = [], bullets = None, variants = [], specifications = [],
     rating = None, reviewCount = None, moq = None,
     scrapedAt = 1767225600000, isDemo = None \<rparr>"

text \<open>
  A blog post with the heading \<^verbatim>\<open>Artisan Mug\<close> and no price. Its three images are a
  relative path, a data URI and the absolute address the relative path resolves to.
\<close>

definition mugUrl :: string where
  "mugUrl = ''https://blog.example.org/posts/artisan-mug''"

definition mugWorld :: world where
  "mugWorld = offline \<lparr>
     resolveURL := (\<lambda>src base.
       if src = ''/img/mug.jpg'' \<and> base = mugUrl
       then Some ''https://blog.example.org/img/mug.jpg'' else None),
     genericResponse := Inr \<lparr>
       generic_h1 = ''Artisan Mug'', generic_itemName = [],
       generic_titleTag = ''Artisan Mug | Blog'',
       generic_imgs =
         [(Some ''/img/mug.jpg'', DataFalsy),
          (Some ''data:image/gif;base64,R0lGODlhAQABAAAAACw='', DataFalsy),
          (Some ''https://blog.example.org/img/mug.jpg'', DataFalsy)],
       priceContent = None, priceClassText = [], generic_description = None \<rparr> \<rparr>"

definition mugCandidate :: product where
  "mugCandidate = \<lparr>
     platform = ''generic'', productId = Absent,
     url = Some mugUrl, title = Some ''Artisan Mug'',
     price = Num 0, originalPrice = Absent, currency = ''USD'',
     images = [''https://blog.example.org/img/mug.jpg''],
     description = [], bullets = None, variants = [], specifications = [],
     rating = None, reviewCount = None, moq = None,
     scrapedAt = 1767225600250, isDemo = None \<rparr>"

text \<open>A CJ Dropshipping product page with a heading, a price and one image.\<close>

definition cjUrl :: string where
  "cjUrl = ''https://cjdropshipping.com/product/wireless-charger-stand-p-1.html''"

definition cjWorld :: world where
  "cjWorld = offline \<lparr>
     genericResponse := Inr \<lparr>
       generic_h1 = ''Wireless Charger Stand'', generic_itemName = [],
       generic_titleTag = ''Wireless Charger Stand'',
       generic_imgs = [(Some ''https://cf.cjdropshipping.com/charger.jpg'', DataFalsy)],
       priceContent = None, priceClassText = ''$12.99'',
       generic_description = None \<rparr> \<rparr>"

definition cjRecord :: product where
  "cjRecord = \<lparr>
     platform = ''generic'', productId = Absent,
     url = Some cjUrl, title = Some ''Wireless Charger Stand'',
     price = Num (1299 / 100), originalPrice = Absent, currency = ''USD'',
     images = [''https://cf.cjdropshipping.com/charger.jpg''],
     description = [], bullets = None, variants = [], specifications = [],
     rating = None, reviewCount = None, moq = None,
     scrapedAt = 1767225600250, isDemo = None \<rparr>"

text \<open>
  An Alibaba page with three gallery images. The first is lazy-loaded: \<^verbatim>\<open>src\<close> holds a
  placeholder data URI and \<^verbatim>\<open>data-src\<close> the real address. The second and the third
  are the same picture, with a protocol-relative \<^verbatim>\<open>src\<close>.
\<close>

definition alibabaUrl :: string where
  "alibabaUrl = ''https://www.alibaba.com/product-detail/Wireless-Charger_1600.html''"

definition alibabaPage :: alibaba_page where
  "alibabaPage = \<lparr>
     alibaba_heading = ''Wireless Charger'', alibaba_titleTag = ''Wireless Charger'',
     alibaba_priceText = ''US $12.99'',
     alibaba_imgs =
       [(Some ''data:image/gif;base64,R0lGODlhAQABAAAAACw='',
         DataString ''//s.alicdn.com/charger.jpg''),
        (Some ''//s.alicdn.com/side.jpg'', DataFalsy),
        (Some ''//s.alicdn.com/side.jpg'', DataFalsy)],
     alibaba_description = None, alibaba_moq = Num 1 \<rparr>"

definition alibabaWorld :: world where
  "alibabaWorld = offline \<lparr> alibabaResponse := Inr alibabaPage \<rparr>"

definition alibabaRecord :: product where
  "alibabaRecord = \<lparr>
     platform = ''alibaba'', productId = Absent,
     url = Some alibabaUrl, title = Some ''Wireless Charger'',
     price = Num (1299 / 100), originalPrice = Absent, currency = ''USD'',
     images =
       [''data:image/gif;base64,R0lGODlhAQABAAAAACw='', ''https://s.alicdn.com/side.jpg'',
        ''https://s.alicdn.com/side.jpg''],
     description = [], bullets = None, variants = [], specifications = [],
     rating = None, reviewCount = None, moq = Some (Num 1),
     scrapedAt = 1767225600250, isDemo = None \<rparr>"

text \<open>
  An AliExpress page with embedded JSON: a title, a price, an image path list with a
  protocol-relative entry, an absolute one and the first again, and the address of the
  description. In \<open>galleryWorld\<close> the API request fails and the description host answers;
  in \<open>silentWorld\<close> the description host accepts the request and never answers.
\<close>

definition galleryPage :: ali_page where
  "galleryPage = \<lparr>
     pageModuleTitle = Some ''Wireless Charger 15W'', titleModuleSubject = None,
     ali_h1 = [], ali_productTitle = [], ali_titleTag = ''Wireless Charger 15W'',
     priceModule = Some \<lparr> minActivityAmount = Some ''12.99'', minAmount = None,
       formatedActivityPrice = None \<rparr>,
     usPriceMatch = None,
     imagePathList = Some
       [''//ae01.alicdn.com/kf/main.jpg'', ''https://ae01.alicdn.com/kf/side.jpg'',
        ''//ae01.alicdn.com/kf/main.jpg''],
     ali_imgs = [],
     descriptionUrl = Some ''https://aeproductsourcesite.alicdn.com/product/description/pc/v2/en_US/desc.htm?productId=1005001234567890'',
     ali_variants = [], ali_specifications = [] \<rparr>"

definition galleryWorld :: world where
  "galleryWorld = offline \<lparr>
     productIdMatch := Some ''1005001234567890'',
     aliResponse := Inr galleryPage,
     descriptionResponse := Fulfilled ''<p>15W fast wireless charging</p>'' \<rparr>"

definition galleryRecord :: product where
  "galleryRecord = \<lparr>
     platform = ''aliexpress'', productId = Val ''1005001234567890'',
     url = Some chargerUrl, title = Some ''Wireless Charger 15W'',
     price = Num (1299 / 100), originalPrice = Null, currency = ''USD'',
     images = [''https://ae01.alicdn.com/kf/main.jpg'', ''https://ae01.alicdn.com/kf/side.jpg''],
     description = ''<p>15W fast wireless charging</p>'',
     bullets = None, variants = [], specifications = [],
     rating = None, reviewCount = None, moq = None,
     scrapedAt = 1767225600250, isDemo = None \<rparr>"

definition silentWorld :: world where
  "silentWorld = galleryWorld \<lparr> descriptionResponse := Pending \<rparr>"

text \<open>
  The mobile API answers with an item that lists sixteen pictures by protocol-relative
  addresses and the first of them once more.
\<close>

definition apiGalleryImages :: "string list" where
  "apiGalleryImages =
     map (\<lambda>k. ''//ae01.alicdn.com/kf/charger-'' @ k @ ''.jpg'')
       [''01'', ''02'', ''03'', ''04'', ''05'', ''06'', ''07'', ''08'', ''09'', ''10'', ''11'',
        ''12'', ''13'', ''14'', ''15'', ''16'', ''01'']"

definition apiGalleryWorld :: world where
  "apiGalleryWorld = offline \<lparr>
     productIdMatch := Some ''1005001234567890'',
     apiResponse := Inr (Some \<lparr>
       item_title = Some ''Wireless Charger'',
       item_promotionPrice = None, item_price = Some ''12.99'',
       item_images = Some apiGalleryImages,
       item_description = None \<rparr>) \<rparr>"

definition apiGalleryRecord :: product where
  "apiGalleryRecord = \<lparr>
     platform = ''aliexpress'', productId = Val ''1005001234567890'',
     url = None, title = Some ''Wireless Charger'',
     price = Num (1299 / 100), originalPrice = Val (Num (1299 / 100)), currency = ''USD'',
     images = apiGalleryImages,
     description = [], bullets = None, variants = [], specifications = [],
     rating = None, reviewCount = None, moq = None,
     scrapedAt = 1767225600000, isDemo = None \<rparr>"

text \<open>
  The CJ Dropshipping page again, with one lazy-loaded image that has no \<^verbatim>\<open>src\<close> and
  whose \<^verbatim>\<open>data-src\<close> is the text \<^verbatim>\<open>7\<close>, which \<^verbatim>\<open>.data\<close> returns as a number.
\<close>

definition coercedWorld :: world where
  "coercedWorld = offline \<lparr>
     genericResponse := Inr \<lparr>
       generic_h1 = ''Wireless Charger Stand'', generic_itemName = [],
       generic_titleTag = ''Wireless Charger Stand'',
       generic_imgs = [(None, DataOther)],
       priceContent = None, priceClassText = ''$12.99'',
       generic_description = None \<rparr> \<rparr>"

text \<open>An Amazon page whose main image has a protocol-relative address.\<close>

definition amazonUrl :: string where
  "amazonUrl = ''https://www.amazon.com/dp/B000000000''"

definition amazonWorld :: world where
  "amazonWorld = offline \<lparr>
     amazonResponse := Inr \<lparr>
       productTitle = ''Wireless Charger'', amazon_h1 = [],
       priceTexts = [''$12.99'', [], [], [], []],
       landingImage = Some ''//cdn.example.com/a.jpg'', imgBlkFront = None,
       altImages = [], colorImages = [], featureBullets = [],
       productDescription = None, amazon_variants = [],
       amazon_rating = Num 0, amazon_reviewCount = Num 0 \<rparr> \<rparr>"

definition amazonRecord :: product where
  "amazonRecord = \<lparr>
     platform = ''amazon'', productId = Absent,
     url = Some amazonUrl, title = Some ''Wireless Charger'',
     price = Num (1299 / 100), originalPrice = Absent, currency = ''USD'',
     images = [''//cdn.example.com/a.jpg''],
     description = [], bullets = Some [], variants = [], specifications = [],
     rating = Some (Num 0), reviewCount = Some (Num 0), moq = None,
     scrapedAt = 1767225600250, isDemo = None \<rparr>"

section \<open>Facts shared by the proofs\<close>

lemma scrape_Str:
  "scrape w (Str u) =
     (case runExtractor w u (detectPlatform u) of
        Pending \<Rightarrow> Pending
      | Rejected e \<Rightarrow> Fulfilled (getDemoProduct u (detectPlatform u) (demoClock w))
      | Fulfilled c \<Rightarrow> Fulfilled (validityGate w u (detectPlatform u) c))"
  by (simp add: scrape_def tryBlock_def Let_def split: outcome.split)

text \<open>An argument that is not a string fails before the \<^verbatim>\<open>try\<close> is entered.\<close>

lemma scrape_NonString:
  "scrape w NonString = Rejected (TypeError ''url.toLowerCase is not a function'')"
  by (simp add: scrape_def)

text \<open>
  On a string nothing is thrown past \<^verbatim>\<open>scrape\<close>, and the only run that does not come
  to an end is an AliExpress run whose description request stays unanswered.
\<close>

lemma scrape_Str_not_rejected: "scrape w (Str u) \<noteq> Rejected e"
  by (simp add: scrape_Str split: outcome.split)

lemma extractor_pending:
  assumes "runExtractor w u p = Pending"
  shows "p = ''aliexpress'' \<and> descriptionResponse w = Pending"
  using assms
  by (auto simp: runExtractor_def settled_def scrapeAliExpress_def aliDescription_def
      split: if_splits sum.splits option.splits outcome.splits)

lemma scrape_pending_iff:
  "scrape w (Str u) = Pending \<longleftrightarrow> runExtractor w u (detectPlatform u) = Pending"
  by (simp add: scrape_Str split: outcome.split)

lemma demo_fields:
  "platform (getDemoProduct u p t) = p"
  "url (getDemoProduct u p t) = Some u"
  "title (getDemoProduct u p t) = Some ''Premium Wireless Bluetooth Earbuds Pro''"
  "price (getDemoProduct u p t) = Num (4999 / 100)"
  "scrapedAt (getDemoProduct u p t) = t"
  "isDemo (getDemoProduct u p t) = Some True"
  by (simp_all add: getDemoProduct_def)

lemma demo_valid: "\<not> invalidData (getDemoProduct u p t)"
  by (simp add: invalidData_def getDemoProduct_def)

lemma api_record_fields:
  assumes "scrapeAliExpressAPI w pid = Inr c"
  shows "isDemo c = None" and "scrapedAt c = apiClock w" and "platform c = ''aliexpress''"
    and "url c = None"
  using assms
  by (auto simp: scrapeAliExpressAPI_def split: sum.splits option.splits)

lemma apiAttempt_Some:
  assumes "apiAttempt w = Some c"
  shows "\<exists>pid. scrapeAliExpressAPI w pid = Inr c"
  using assms
  by (auto simp: apiAttempt_def split: option.splits sum.splits if_splits)

lemma aliexpress_fields:
  assumes "scrapeAliExpress w u = Fulfilled c"
  shows "isDemo c = None" and "scrapedAt c \<in> {apiClock w, pageClock w}"
    and "platform c = ''aliexpress''"
proof -
  show "isDemo c = None"
  proof (cases "apiAttempt w")
    case None
    with assms show ?thesis
      by (auto simp: scrapeAliExpress_def split: sum.splits outcome.splits)
  next
    case (Some a)
    with assms have "a = c" by (simp add: scrapeAliExpress_def)
    with Some apiAttempt_Some api_record_fields(1) show ?thesis by blast
  qed
  show "scrapedAt c \<in> {apiClock w, pageClock w}"
  proof (cases "apiAttempt w")
    case None
    with assms show ?thesis
      by (auto simp: scrapeAliExpress_def split: sum.splits outcome.splits)
  next
    case (Some a)
    with assms have "a = c" by (simp add: scrapeAliExpress_def)
    with Some apiAttempt_Some api_record_fields(2) show ?thesis by blast
  qed
  show "platform c = ''aliexpress''"
  proof (cases "apiAttempt w")
    case None
    with assms show ?thesis
      by (auto simp: scrapeAliExpress_def split: sum.splits outcome.splits)
  next
    case (Some a)
    with assms have "a = c" by (simp add: scrapeAliExpress_def)
    with Some apiAttempt_Some api_record_fields(3) show ?thesis by blast
  qed
qed

lemma amazon_fields:
  assumes "scrapeAmazon w u = Inr c"
  shows "isDemo c = None" and "scrapedAt c = pageClock w" and "platform c = ''amazon''"
    and "url c = Some u"
  using assms by (auto simp: scrapeAmazon_def split: sum.splits)

lemma alibaba_fields:
  assumes "scrapeAlibaba w u = Inr c"
  shows "isDemo c = None" and "scrapedAt c = pageClock w" and "platform c = ''alibaba''"
    and "url c = Some u"
  using assms by (auto simp: scrapeAlibaba_def split: sum.splits)

lemma generic_fields:
  assumes "scrapeGeneric w u = Inr c"
  shows "isDemo c = None" and "scrapedAt c = pageClock w" and "platform c = ''generic''"
    and "url c = Some u"
  using assms by (auto simp: scrapeGeneric_def split: sum.splits)

lemma extractor_cases:
  assumes "runExtractor w u p = Fulfilled c"
  obtains "p = ''aliexpress''" "scrapeAliExpress w u = Fulfilled c"
  | "p = ''amazon''" "scrapeAmazon w u = Inr c"
  | "p = ''alibaba''" "scrapeAlibaba w u = Inr c"
  | "p \<notin> {''aliexpress'', ''amazon'', ''alibaba''}" "scrapeGeneric w u = Inr c"
  using assms
  by (auto simp: runExtractor_def settled_def split: if_splits sum.splits)

lemma candidate_not_demo:
  assumes "runExtractor w u p = Fulfilled c"
  shows "isDemo c = None" and "scrapedAt c \<in> {apiClock w, pageClock w}"
  using assms
  by (auto elim!: extractor_cases
      simp: aliexpress_fields(1) amazon_fields alibaba_fields generic_fields
      dest: aliexpress_fields(2))

lemma demo_returned:
  assumes "scrape w (Str u) = Fulfilled r" and "isDemo r = Some True"
  shows "r = getDemoProduct u (detectPlatform u) (demoClock w)"
proof (cases "runExtractor w u (detectPlatform u)")
  case Pending
  with assms(1) show ?thesis by (simp add: scrape_Str)
next
  case (Rejected e)
  with assms(1) show ?thesis by (simp add: scrape_Str)
next
  case (Fulfilled c)
  then have "isDemo c = None" by (rule candidate_not_demo(1))
  with assms Fulfilled show ?thesis
    by (auto simp: scrape_Str validityGate_def split: if_splits)
qed

text \<open>
  A value that \<^verbatim>\<open>.data\<close> has turned into a number makes the image loop throw, and the
  run ends with the demo product.
\<close>

lemma coerced_data_src_gives_demo:
  "runExtractor coercedWorld cjUrl (detectPlatform cjUrl)
     = Rejected (TypeError ''src.startsWith is not a function'') \<and>
   scrape coercedWorld (Str cjUrl) = Fulfilled (getDemoProduct cjUrl ''cj'' 1767225600500)"
  by code_simp

section \<open>Letter case\<close>

lemma toLowerChar_idem: "toLowerChar (toLowerChar c) = toLowerChar c"
proof -
  have "of_char (char_of (n + 32 :: nat)) = n + 32" if "n \<le> 222" for n :: nat
  proof -
    have "of_char (char_of (n + 32 :: nat)) = (n + 32) mod 256" by (rule of_char_of)
    with that show ?thesis by simp
  qed
  then show ?thesis
    unfolding toLowerChar_def Let_def by auto
qed

lemma toLowerCase_idem: "toLowerCase (toLowerCase s) = toLowerCase s"
  by (simp add: toLowerCase_def toLowerChar_idem)

section \<open>Runs that never come back\<close>

text \<open>
  C1: for every string \<^verbatim>\<open>url\<close>, \<^verbatim>\<open>scrape\<close> lets no exception escape and always returns a
  product record. The request for the description at line 217 is the only one made
  without a timeout. On the AliExpress page of the example \<^verbatim>\<open>scrape\<close> returns the
  candidate when the description host answers, and it never returns, with a record or
  with an exception, when that host stays silent.
\<close>

theorem scrape_pending_without_timeout:
  "scrape galleryWorld (Str chargerUrl) = Fulfilled galleryRecord \<and>
   descriptionResponse silentWorld = Pending \<and>
   scrape silentWorld (Str chargerUrl) = Pending"
  by code_simp

section \<open>Rejected candidates are replaced by the demo product\<close>

text \<open>
  C2: when the candidate record has no title, a title of fewer than 5 characters, a
  title containing \<^verbatim>\<open>404\<close>, or the price 0, and when the selected extractor raises an
  error, \<^verbatim>\<open>scrape\<close> returns the demo product: title
  \<^verbatim>\<open>Premium Wireless Bluetooth Earbuds Pro\<close>, price 49.99, \<open>isDemo\<close> true.
\<close>

theorem rejected_candidate_gives_demo:
  assumes "runExtractor w u (detectPlatform u) = Rejected e \<or>
           (runExtractor w u (detectPlatform u) = Fulfilled c \<and>
              (title c = None \<or>
               (\<exists>t. title c = Some t \<and> (length t < 5 \<or> includes_str t ''404'')) \<or>
               price c = Num 0))"
  shows "\<exists>r. scrape w (Str u) = Fulfilled r \<and>
             r = getDemoProduct u (detectPlatform u) (demoClock w) \<and>
             title r = Some ''Premium Wireless Bluetooth Earbuds Pro'' \<and>
             price r = Num (4999 / 100) \<and>
             isDemo r = Some True"
proof -
  have "scrape w (Str u) = Fulfilled (getDemoProduct u (detectPlatform u) (demoClock w))"
    using assms
  proof
    assume "runExtractor w u (detectPlatform u) = Rejected e"
    then show ?thesis by (simp add: scrape_Str)
  next
    assume a: "runExtractor w u (detectPlatform u) = Fulfilled c \<and>
              (title c = None \<or>
               (\<exists>t. title c = Some t \<and> (length t < 5 \<or> includes_str t ''404'')) \<or>
               price c = Num 0)"
    then have "invalidData c"
      by (auto simp: invalidData_def split: option.splits)
    with a show ?thesis by (simp add: scrape_Str validityGate_def)
  qed
  then show ?thesis by (simp add: demo_fields)
qed

theorem rejected_candidate_gives_demo_witness:
  "\<exists>r. scrape mugWorld (Str mugUrl) = Fulfilled r \<and>
       r = getDemoProduct mugUrl (detectPlatform mugUrl) (demoClock mugWorld) \<and>
       title r = Some ''Premium Wireless Bluetooth Earbuds Pro'' \<and>
       price r = Num (4999 / 100) \<and>
       isDemo r = Some True"
proof -
  have h: "runExtractor mugWorld mugUrl (detectPlatform mugUrl) = Fulfilled mugCandidate"
    by code_simp
  have z: "price mugCandidate = Num 0" by (simp add: mugCandidate_def)
  show ?thesis
    by (rule rejected_candidate_gives_demo [where c = mugCandidate and e = "Error []"])
       (simp add: h z)
qed

section \<open>The demo product across calls\<close>

text \<open>
  C3 as stated: two substitutions of the demo product for the same trigger give identical
  records, \<open>scrapedAt\<close> included. It fails: the same URL with the same timeout, one
  minute later on the clock, gives a record with another \<open>scrapedAt\<close>.
\<close>

theorem demo_scrapedAt_counterexample:
  "scrape offline (Str amazonUrl) = Fulfilled (getDemoProduct amazonUrl ''amazon'' 1767225600500) \<and>
   scrape (offline\<lparr>demoClock := 1767225660500\<rparr>) (Str amazonUrl)
     = Fulfilled (getDemoProduct amazonUrl ''amazon'' 1767225660500) \<and>
   getDemoProduct amazonUrl ''amazon'' 1767225600500
     \<noteq> getDemoProduct amazonUrl ''amazon'' 1767225660500"
  by code_simp

text \<open>
  C3, amended: any two runs of \<^verbatim>\<open>scrape\<close> on the same URL that both return a demo
  record agree on every field except \<open>scrapedAt\<close>, which in each is the reading of the
  clock when \<^verbatim>\<open>getDemoProduct\<close> ran; every other field is the constant of
  \<^verbatim>\<open>getDemoProduct\<close> for that URL and platform.
\<close>

theorem demo_fixed_except_scrapedAt:
  assumes "scrape w1 (Str u) = Fulfilled r1" and "isDemo r1 = Some True"
    and "scrape w2 (Str u) = Fulfilled r2" and "isDemo r2 = Some True"
  shows "r1\<lparr>scrapedAt := scrapedAt r2\<rparr> = r2 \<and>
         scrapedAt r1 = demoClock w1 \<and> scrapedAt r2 = demoClock w2 \<and>
         r1 = getDemoProduct u (detectPlatform u) (scrapedAt r1)"
proof -
  from assms(1,2) have r1: "r1 = getDemoProduct u (detectPlatform u) (demoClock w1)"
    by (rule demo_returned)
  from assms(3,4) have r2: "r2 = getDemoProduct u (detectPlatform u) (demoClock w2)"
    by (rule demo_returned)
  have "(getDemoProduct u (detectPlatform u) (demoClock w1))\<lparr>scrapedAt := demoClock w2\<rparr>
          = getDemoProduct u (detectPlatform u) (demoClock w2)"
    by (simp add: getDemoProduct_def)
  then show ?thesis by (simp add: r1 r2 demo_fields)
qed

theorem demo_fixed_except_scrapedAt_witness:
  "(getDemoProduct amazonUrl ''amazon'' 1767225600500)\<lparr>scrapedAt := 1767225660500\<rparr>
     = getDemoProduct amazonUrl ''amazon'' 1767225660500"
proof -
  let ?w2 = "offline\<lparr>demoClock := 1767225660500\<rparr>"
  let ?r1 = "getDemoProduct amazonUrl ''amazon'' 1767225600500"
  let ?r2 = "getDemoProduct amazonUrl ''amazon'' 1767225660500"
  have h1: "scrape offline (Str amazonUrl) = Fulfilled ?r1" by code_simp
  have h2: "scrape ?w2 (Str amazonUrl) = Fulfilled ?r2" by code_simp
  have d1: "isDemo ?r1 = Some True" and d2: "isDemo ?r2 = Some True"
    by (simp_all add: demo_fields)
  have s2: "scrapedAt ?r2 = 1767225660500" by (simp add: demo_fields)
  from demo_fixed_except_scrapedAt [OF h1 d1 h2 d2]
  have "?r1\<lparr>scrapedAt := scrapedAt ?r2\<rparr> = ?r2" by blast
  then show ?thesis by (simp only: s2)
qed

section \<open>Accepted candidates\<close>

text \<open>
  C4 as stated: an accepted candidate is returned with \<open>isDemo\<close> set to false. It fails
  on the AliExpress page of the example: the record returned has no \<open>isDemo\<close> at all.
\<close>

theorem accepted_isDemo_counterexample:
  "runExtractor chargerWorld chargerUrl (detectPlatform chargerUrl) = Fulfilled chargerRecord \<and>
   \<not> invalidData chargerRecord \<and>
   scrape chargerWorld (Str chargerUrl) = Fulfilled chargerRecord \<and>
   isDemo chargerRecord \<noteq> Some False"
  by code_simp

text \<open>
  C4, amended: a candidate that passes the check of line 39 is returned with every field
  unchanged. Its \<open>scrapedAt\<close> is the stamp the extractor gave it, and it has no
  \<open>isDemo\<close> property: no extractor sets one and line 44 returns the record as it is.
\<close>

theorem accepted_candidate_unchanged:
  assumes "runExtractor w u (detectPlatform u) = Fulfilled c" and "\<not> invalidData c"
  shows "scrape w (Str u) = Fulfilled c \<and> isDemo c = None \<and>
         scrapedAt c \<in> {apiClock w, pageClock w}"
  using assms candidate_not_demo [OF assms(1)]
  by (simp add: scrape_Str validityGate_def)

theorem accepted_candidate_unchanged_witness:
  "scrape chargerWorld (Str chargerUrl) = Fulfilled chargerRecord \<and> isDemo chargerRecord = None \<and>
   scrapedAt chargerRecord \<in> {apiClock chargerWorld, pageClock chargerWorld}"
proof -
  have h: "runExtractor chargerWorld chargerUrl (detectPlatform chargerUrl) = Fulfilled chargerRecord"
    by code_simp
  have v: "\<not> invalidData chargerRecord" by code_simp
  show ?thesis by (rule accepted_candidate_unchanged [OF h v])
qed

section \<open>The platform of the returned record\<close>

text \<open>
  C5: the platform of the returned record is the one \<^verbatim>\<open>detectPlatform\<close> assigned. On a
  CJ Dropshipping URL the detector answers \<^verbatim>\<open>cj\<close>, the \<^verbatim>\<open>default\<close> branch runs
  \<^verbatim>\<open>scrapeGeneric\<close>, and the accepted record says \<^verbatim>\<open>generic\<close>.
\<close>

theorem cj_platform_overwritten:
  "detectPlatform cjUrl = ''cj'' \<and>
   scrape cjWorld (Str cjUrl) = Fulfilled cjRecord \<and>
   platform cjRecord = ''generic''"
  by code_simp

section \<open>The platform detector\<close>

text \<open>
  C6 as stated: \<^verbatim>\<open>detectPlatform\<close> always returns one of aliexpress, amazon, alibaba,
  cj and the generic platform (which the code spells \<^verbatim>\<open>generic\<close>). It fails on a
  1688.com URL, for which the fourth test of the function returns \<^verbatim>\<open>1688\<close>.
\<close>

theorem detectPlatform_1688_counterexample:
  "detectPlatform ''https://detail.1688.com/offer/610947572360.html'' = ''1688'' \<and>
   detectPlatform ''https://detail.1688.com/offer/610947572360.html''
     \<notin> {''aliexpress'', ''amazon'', ''alibaba'', ''cj'', ''generic''}"
  by code_simp

text \<open>
  C6, amended: \<^verbatim>\<open>detectPlatform\<close> is a total function of the URL string whose value is
  one of the six identifiers aliexpress, amazon, alibaba, 1688, cj and generic. It is the
  first match in the ordered fragment table on the lower-cased URL, so it does not
  depend on letter case, and it is generic for every URL that contains no fragment of
  the table.
\<close>

theorem detectPlatform_table:
  "detectPlatform u \<in> {''aliexpress'', ''amazon'', ''alibaba'', ''1688'', ''cj'', ''generic''} \<and>
   detectPlatform u = detectByTable u \<and>
   detectPlatform (toLowerCase u) = detectPlatform u \<and>
   (toLowerCase u = toLowerCase v \<longrightarrow> detectPlatform u = detectPlatform v) \<and>
   ((\<forall>entry \<in> set platformTable. \<not> includes_str (toLowerCase u) (fst entry)) \<longrightarrow>
      detectPlatform u = ''generic'')"
proof -
  have 1: "detectPlatform u \<in> {''aliexpress'', ''amazon'', ''alibaba'', ''1688'', ''cj'', ''generic''}"
    by (simp add: detectPlatform_def Let_def)
  have 2: "detectPlatform u = detectByTable u"
    by (simp add: detectPlatform_def detectByTable_def platformTable_def Let_def)
  have 3: "detectPlatform (toLowerCase u) = detectPlatform u"
    by (simp add: detectPlatform_def toLowerCase_idem)
  have 4: "detectPlatform u = detectPlatform v" if "toLowerCase u = toLowerCase v"
    using that by (simp add: detectPlatform_def)
  have 5: "detectPlatform u = ''generic''"
    if "\<forall>entry \<in> set platformTable. \<not> includes_str (toLowerCase u) (fst entry)"
    using that by (simp add: detectPlatform_def platformTable_def Let_def)
  from 1 2 3 4 5 show ?thesis by blast
qed

theorem detectPlatform_table_witness:
  "detectPlatform ''AliExpress.com/item/1'' = detectPlatform ''aliexpress.com/item/1'' \<and>
   detectPlatform ''https://blog.example.org/posts/artisan-mug'' = ''generic''"
proof -
  have h1: "toLowerCase ''AliExpress.com/item/1'' = toLowerCase ''aliexpress.com/item/1''"
    by code_simp
  have h2: "\<forall>entry \<in> set platformTable.
              \<not> includes_str (toLowerCase ''https://blog.example.org/posts/artisan-mug'') (fst entry)"
    by code_simp
  from detectPlatform_table [of "''AliExpress.com/item/1''" "''aliexpress.com/item/1''"] h1
  have "detectPlatform ''AliExpress.com/item/1'' = detectPlatform ''aliexpress.com/item/1''"
    by blast
  moreover
  from detectPlatform_table [of "''https://blog.example.org/posts/artisan-mug''"] h2
  have "detectPlatform ''https://blog.example.org/posts/artisan-mug'' = ''generic''"
    by blast
  ultimately show ?thesis by blast
qed

section \<open>The source URL of the returned record\<close>

text \<open>
  C7: every returned record carries the input URL. The record built by
  \<^verbatim>\<open>scrapeAliExpressAPI\<close> has no \<^verbatim>\<open>url\<close> property, and \<^verbatim>\<open>scrape\<close> returns it as it is
  when it passes the check.
\<close>

theorem api_record_without_url:
  "detectPlatform chargerUrl = ''aliexpress'' \<and>
   scrape apiWorld (Str chargerUrl) = Fulfilled apiRecord \<and>
   url apiRecord = None"
  by code_simp

section \<open>Invariants of the image list\<close>

text \<open>
  C8: the images of every returned record are free of duplicates and of data URIs and
  number at most 15. \<^verbatim>\<open>scrapeAliExpressAPI\<close> hands on \<^verbatim>\<open>item.images\<close> as it is: the
  record returned for the API answer of the example has 17 images, one of them twice.
  \<^verbatim>\<open>scrapeAlibaba\<close> looks for the raw \<^verbatim>\<open>src\<close> in the list and then stores the rewritten
  address, and it has no test for data URIs: the record returned for the Alibaba page
  of the example has the same address twice and a data URI in front.
\<close>

theorem images_duplicated_uncapped_data_uri:
  "scrape apiGalleryWorld (Str chargerUrl) = Fulfilled apiGalleryRecord \<and>
   length (images apiGalleryRecord) = 17 \<and>
   \<not> distinct (images apiGalleryRecord) \<and>
   scrape alibabaWorld (Str alibabaUrl) = Fulfilled alibabaRecord \<and>
   \<not> distinct (images alibabaRecord) \<and>
   startsWith (hd (images alibabaRecord)) ''data:''"
  by code_simp

section \<open>The demo product passes the check\<close>

text \<open>
  C9: none of the rejection criteria holds of the demo product (its title is present, has
  at least 5 characters and does not contain \<^verbatim>\<open>404\<close>; its price is not 0), so lines
  38 to 44 hand it back unchanged.
\<close>

theorem demo_passes_gate:
  "title (getDemoProduct u p t) = Some ''Premium Wireless Bluetooth Earbuds Pro'' \<and>
   \<not> includes_str ''Premium Wireless Bluetooth Earbuds Pro'' ''404'' \<and>
   5 \<le> length ''Premium Wireless Bluetooth Earbuds Pro'' \<and>
   price (getDemoProduct u p t) \<noteq> Num 0 \<and>
   \<not> invalidData (getDemoProduct u p t) \<and>
   validityGate w u' p' (getDemoProduct u p t) = getDemoProduct u p t"
  by (simp add: validityGate_def demo_valid demo_fields)

section \<open>Protocol-relative image addresses\<close>

text \<open>
  C10: every extractor rewrites a protocol-relative image address to an absolute HTTPS
  one before it appears among the images. \<^verbatim>\<open>scrapeAmazon\<close> has no such step: the main
  image \<^verbatim>\<open>//cdn.example.com/a.jpg\<close> of the Amazon page of the example is in the returned
  record as it was read. \<^verbatim>\<open>scrapeAliExpressAPI\<close> has none either: the addresses of the
  API answer of the example are returned protocol-relative.
\<close>

theorem protocol_relative_not_rewritten:
  "landingImage (projr (amazonResponse amazonWorld)) = Some ''//cdn.example.com/a.jpg'' \<and>
   scrape amazonWorld (Str amazonUrl) = Fulfilled amazonRecord \<and>
   images amazonRecord = [''//cdn.example.com/a.jpg''] \<and>
   scrape apiGalleryWorld (Str chargerUrl) = Fulfilled apiGalleryRecord \<and>
   hd (images apiGalleryRecord) = ''//ae01.alicdn.com/kf/charger-01.jpg'' \<and>
   list_all (\<lambda>x. startsWith x ''//'') (images apiGalleryRecord)"
  by code_simp

end
